theory Spec2Isabelle
  imports Complex_Main
begin

section \<open>Data model of the MIDI controller hook\<close>

text \<open>
  The development embeds the two \<open>useController\<close> hooks of the repository
  (\<open>src/hooks/useMidiController.ts\<close>, the compact one, and the verbose one that follows
  the component in \<open>src/components/UC33eController.tsx\<close>) and the controller map
  \<open>u33e\<close>. JavaScript numbers are modelled as real numbers: the rounding error of
  IEEE doubles is not represented, and the one non-finite value the message path can
  produce from bytes (a missing velocity byte, which makes the raw value \<open>NaN\<close>) is a
  constructor of its own. Bounds on the numeric range of a transformed value are decided
  by that rounding (and by overflow), so none is stated here.
\<close>

datatype number = Num real | NaN

datatype MIDIConnectionStatus = Disconnected | Connected | Error

datatype port_connection = Open | Closed | Pending

datatype port_device_state = PortConnected | PortDisconnected

datatype curve = Linear | Logarithmic | Exponential

record MIDIDeviceInfo =
  info_id :: string
  info_name :: string
  info_manufacturer :: string
  info_connection :: port_connection

text \<open>An input port as the hook reads it: \<open>name\<close> and \<open>manufacturer\<close> may be absent.\<close>

record MIDIInput =
  input_id :: string
  input_name :: "string option"
  input_manufacturer :: "string option"
  input_connection :: port_connection

record MIDIAccess =
  inputs :: "MIDIInput list"

record MIDIPort =
  port_name :: "string option"
  port_manufacturer :: "string option"
  port_state :: port_device_state

record MIDIConnectionEvent =
  port :: MIDIPort

text \<open>Every field of a transformer is optional in the source (\<open>min?\<close>, \<open>max?\<close>, ...).\<close>

record ValueTransformer =
  vt_min :: "real option"
  vt_max :: "real option"
  vt_curve :: "curve option"
  vt_step :: "real option"
  vt_invert :: "bool option"

type_synonym MIDIControllerState = "string \<rightharpoonup> number"

text \<open>
  \<open>MIDIControllersMap\<close>: outer key the note number (data1), inner key the command
  (status byte), as an association list in the order of the object literal.
\<close>

type_synonym MIDIControllersMap = "(nat \<times> (nat \<times> string) list) list"

text \<open>
  A message event. \<open>data\<close> is the byte array; \<open>None\<close> stands for a \<open>data\<close> that is
  \<open>null\<close> or \<open>undefined\<close> at run time, which the declared TypeScript type excludes and
  on which the array destructuring throws a \<open>TypeError\<close>.
\<close>

record MIDIMessageEvent =
  data :: "nat list option"

datatype js_error = TypeError

datatype log_event =
  ConsoleWarnNoMapping "nat option" "nat option"
| ConsoleErrorProcessing js_error
| ConsoleLogPort "string option" port_device_state "string option"
| ConsoleLog string

text \<open>The React state of one hook instance, with the console as an output trace.\<close>

record hook =
  state :: MIDIControllerState
  status :: MIDIConnectionStatus
  connectedDevices :: "MIDIDeviceInfo list"
  midiMessage :: "MIDIMessageEvent option"
  console :: "log_event list"

section \<open>Value transform\<close>

text \<open>\<open>applyCurve\<close> of the compact hook: two \<open>if\<close>s and a fall-through.\<close>

definition applyCurve :: "real \<Rightarrow> curve \<Rightarrow> real" where
  "applyCurve v c =
     (if c = Logarithmic then ln (1 + v * 9) / ln 10
      else if c = Exponential then (exp v - 1) / (exp 1 - 1)
      else v)"

text \<open>\<open>applyCurveTransformation\<close> of the verbose hook: a \<open>switch\<close>.\<close>

fun applyCurveTransformation :: "real \<Rightarrow> curve \<Rightarrow> real" where
  "applyCurveTransformation v Logarithmic = ln (1 + v * 9) / ln 10"
| "applyCurveTransformation v Exponential = (exp v - 1) / (exp 1 - 1)"
| "applyCurveTransformation v Linear = v"

text \<open>\<open>Math.round\<close> rounds half up, which is \<open>round\<close> of HOL: \<open>\<lfloor>x + 1/2\<rfloor>\<close>.\<close>

definition Math_round :: "real \<Rightarrow> real" where
  "Math_round x = of_int (round x)"

text \<open>A destructuring default: \<open>{ min = 0 }\<close> takes the default when the field is absent.\<close>

definition default_to :: "'a \<Rightarrow> 'a option \<Rightarrow> 'a" where
  "default_to d x = (case x of None \<Rightarrow> d | Some v \<Rightarrow> v)"

text \<open>
  The body of \<open>transformValue\<close> below the lookup, for a transformer that is present.
  \<open>invert ? \<dots>\<close> and \<open>step ? \<dots>\<close> test truthiness: an absent \<open>invert\<close> and an absent
  \<open>step\<close> are falsy, and so is a \<open>step\<close> of \<open>0\<close>.
\<close>

definition applyTransformer :: "(real \<Rightarrow> curve \<Rightarrow> real) \<Rightarrow> ValueTransformer \<Rightarrow> real \<Rightarrow> real" where
  "applyTransformer curveFn transformer rawValue =
     (let mn = default_to 0 (vt_min transformer);
          mx = default_to 1 (vt_max transformer);
          cv = default_to Linear (vt_curve transformer);
          value = (if vt_invert transformer = Some True then 1 - rawValue else rawValue);
          value = curveFn value cv;
          value = mn + (mx - mn) * value
      in (case vt_step transformer of
            None \<Rightarrow> value
          | Some s \<Rightarrow> if s = 0 then value else Math_round (value / s) * s))"

definition transformValue :: "(string \<rightharpoonup> ValueTransformer) \<Rightarrow> string \<Rightarrow> real \<Rightarrow> real" where
  "transformValue valueTransformers controller rawValue =
     (case valueTransformers controller of
        None \<Rightarrow> rawValue
      | Some transformer \<Rightarrow> applyTransformer applyCurve transformer rawValue)"

definition transformValue_verbose :: "(string \<rightharpoonup> ValueTransformer) \<Rightarrow> string \<Rightarrow> real \<Rightarrow> real" where
  "transformValue_verbose valueTransformers controller rawValue =
     (case valueTransformers controller of
        None \<Rightarrow> rawValue
      | Some transformer \<Rightarrow> applyTransformer applyCurveTransformation transformer rawValue)"

text \<open>\<open>Math.round((velocity / 127) * 1000) / 1000\<close>.\<close>

definition rawNormalized :: "nat \<Rightarrow> real" where
  "rawNormalized velocity = Math_round ((real velocity / 127) * 1000) / 1000"

text \<open>The transformer that is present but sets no field.\<close>

definition empty_transformer :: ValueTransformer where
  "empty_transformer =
     \<lparr>vt_min = None, vt_max = None, vt_curve = None, vt_step = None, vt_invert = None\<rparr>"


definition invalid_transformer :: ValueTransformer where
  "invalid_transformer =
     \<lparr>vt_min = Some 2, vt_max = Some 1, vt_curve = None, vt_step = Some (- 1 / 2),
      vt_invert = None\<rparr>"

section \<open>Controller map lookup and the message effect\<close>

text \<open>
  \<open>const [command, note, velocity] = debouncedMessage.data\<close>: an element past the end
  of the array is \<open>undefined\<close>.
\<close>

fun element :: "nat list \<Rightarrow> nat \<Rightarrow> nat option" where
  "element [] i = None"
| "element (x # xs) 0 = Some x"
| "element (x # xs) (Suc i) = element xs i"

text \<open>
  \<open>controllers[note]?.[command]\<close>: a missing row or a missing entry gives \<open>undefined\<close>,
  and so does an \<open>undefined\<close> key.
\<close>

definition controllerLookup :: "MIDIControllersMap \<Rightarrow> nat option \<Rightarrow> nat option \<Rightarrow> string option" where
  "controllerLookup controllers note command =
     (case note of
        None \<Rightarrow> None
      | Some n \<Rightarrow>
          (case map_of controllers n of
             None \<Rightarrow> None
           | Some row \<Rightarrow> (case command of None \<Rightarrow> None | Some c \<Rightarrow> map_of row c)))"

record MIDIControllerAction =
  action_controller :: string
  action_value :: number

definition reducer :: "MIDIControllerState \<Rightarrow> MIDIControllerAction \<Rightarrow> MIDIControllerState" where
  "reducer st action = st(action_controller action \<mapsto> action_value action)"

text \<open>
  The value dispatched for a mapped control. With the velocity byte missing the raw value
  is \<open>NaN\<close>, and every branch of \<open>transformValue\<close> maps \<open>NaN\<close> to \<open>NaN\<close>.
\<close>

definition dispatchedValue :: "(string \<Rightarrow> real \<Rightarrow> real) \<Rightarrow> string \<Rightarrow> nat option \<Rightarrow> number" where
  "dispatchedValue transform controllerMap velocity =
     (case velocity of
        None \<Rightarrow> NaN
      | Some v \<Rightarrow> Num (transform controllerMap (rawNormalized v)))"

text \<open>
  The debounced-message effect of the compact hook. It has no \<open>try\<close>: an exception
  leaves the effect (\<open>Inl\<close>). \<open>if (controllerMap)\<close> is a truthiness test, so the empty
  identifier counts as no mapping.
\<close>

definition messageEffect ::
  "MIDIControllersMap \<Rightarrow> (string \<rightharpoonup> ValueTransformer) \<Rightarrow> hook \<Rightarrow> MIDIMessageEvent option
     \<Rightarrow> js_error + hook" where
  "messageEffect controllers valueTransformers h debouncedMessage =
     (case debouncedMessage of
        None \<Rightarrow> Inr h
      | Some m \<Rightarrow>
          (case data m of
             None \<Rightarrow> Inl TypeError
           | Some d \<Rightarrow>
               (let command = element d 0; note = element d 1; velocity = element d 2;
                    controllerMap = controllerLookup controllers note command
                in (case controllerMap of
                      None \<Rightarrow> Inr h
                    | Some c \<Rightarrow>
                        if c = [] then Inr h
                        else Inr (h\<lparr>state := reducer (state h)
                               \<lparr>action_controller = c,
                                action_value =
                                  dispatchedValue (transformValue valueTransformers) c velocity\<rparr>\<rparr>)))))"

text \<open>The \<open>try\<close> block of the verbose hook's effect: it warns on a missing mapping.\<close>

definition tryBlock_verbose ::
  "MIDIControllersMap \<Rightarrow> (string \<rightharpoonup> ValueTransformer) \<Rightarrow> hook \<Rightarrow> MIDIMessageEvent
     \<Rightarrow> js_error + hook" where
  "tryBlock_verbose controllers valueTransformers h m =
     (case data m of
        None \<Rightarrow> Inl TypeError
      | Some d \<Rightarrow>
          (let command = element d 0; note = element d 1; velocity = element d 2;
               controllerMap = controllerLookup controllers note command
           in (case controllerMap of
                 None \<Rightarrow> Inr (h\<lparr>console := console h @ [ConsoleWarnNoMapping note command]\<rparr>)
               | Some c \<Rightarrow>
                   if c = [] then Inr (h\<lparr>console := console h @ [ConsoleWarnNoMapping note command]\<rparr>)
                   else Inr (h\<lparr>state := reducer (state h)
                          \<lparr>action_controller = c,
                           action_value =
                             dispatchedValue (transformValue_verbose valueTransformers) c velocity\<rparr>\<rparr>))))"

text \<open>The verbose effect: \<open>catch\<close> logs the error and sets the status to \<open>error\<close>.\<close>

definition messageEffect_verbose ::
  "MIDIControllersMap \<Rightarrow> (string \<rightharpoonup> ValueTransformer) \<Rightarrow> hook \<Rightarrow> MIDIMessageEvent option
     \<Rightarrow> hook" where
  "messageEffect_verbose controllers valueTransformers h debouncedMessage =
     (case debouncedMessage of
        None \<Rightarrow> h
      | Some m \<Rightarrow>
          (case tryBlock_verbose controllers valueTransformers h m of
             Inl e \<Rightarrow> h\<lparr>console := console h @ [ConsoleErrorProcessing e], status := Error\<rparr>
           | Inr h' \<Rightarrow> h'))"

text \<open>
  Whether the effect's body throws on the debounced message: the destructuring of a
  \<open>data\<close> that is missing. No other statement of the body can throw.
\<close>

definition raises :: "MIDIMessageEvent option \<Rightarrow> bool" where
  "raises debouncedMessage =
     (case debouncedMessage of None \<Rightarrow> False | Some m \<Rightarrow> data m = None)"

section \<open>Device session\<close>

text \<open>\<open>x || d\<close> on a string that may be absent: absent and empty both give \<open>d\<close>.\<close>

definition or_else :: "string option \<Rightarrow> string \<Rightarrow> string" where
  "or_else x d = (case x of None \<Rightarrow> d | Some s \<Rightarrow> if s = [] then d else s)"

definition deviceInfo :: "MIDIInput \<Rightarrow> MIDIDeviceInfo" where
  "deviceInfo input =
     \<lparr>info_id = input_id input,
      info_name = or_else (input_name input) ''Unknown Device'',
      info_manufacturer = or_else (input_manufacturer input) ''Unknown Manufacturer'',
      info_connection = input_connection input\<rparr>"

text \<open>\<open>updateDevices\<close> (\<open>updateConnectedDevices\<close> in the verbose hook, with the same body).\<close>

definition updateDevices :: "MIDIAccess \<Rightarrow> hook \<Rightarrow> hook" where
  "updateDevices midiAccess h = h\<lparr>connectedDevices := map deviceInfo (inputs midiAccess)\<rparr>"

definition portStatus :: "MIDIConnectionEvent \<Rightarrow> MIDIConnectionStatus" where
  "portStatus event = (if port_state (port event) = PortConnected then Connected else Disconnected)"

text \<open>
  \<open>midiAccess.onstatechange\<close>. The access object is live: its \<open>inputs\<close> are the ports
  the subsystem enumerates when the handler runs.
\<close>

definition onstatechange :: "MIDIAccess \<Rightarrow> MIDIConnectionEvent \<Rightarrow> hook \<Rightarrow> hook" where
  "onstatechange midiAccess event h =
     updateDevices midiAccess (h\<lparr>status := portStatus event\<rparr>)"

definition onstatechange_verbose :: "MIDIAccess \<Rightarrow> MIDIConnectionEvent \<Rightarrow> hook \<Rightarrow> hook" where
  "onstatechange_verbose midiAccess event h =
     (let newStatus = portStatus event;
          h1 = updateDevices midiAccess (h\<lparr>status := newStatus\<rparr>)
      in h1\<lparr>console := console h1 @
            [ConsoleLogPort (port_name (port event)) (port_state (port event))
               (port_manufacturer (port event))]\<rparr>)"

text \<open>The two outcomes of \<open>requestMIDIAccess()\<close>.\<close>

definition accessGranted :: "MIDIAccess \<Rightarrow> hook \<Rightarrow> hook" where
  "accessGranted midiAccess h = updateDevices midiAccess (h\<lparr>status := Connected\<rparr>)"

definition accessDenied :: "hook \<Rightarrow> hook" where
  "accessDenied h = h\<lparr>console := console h @ [ConsoleLog ''MIDI access denied''], status := Error\<rparr>"

definition accessDenied_verbose :: "hook \<Rightarrow> hook" where
  "accessDenied_verbose h =
     h\<lparr>console := console h @ [ConsoleLog ''Could not access your MIDI devices.''],
       status := Error\<rparr>"

definition onMIDIMessage :: "MIDIMessageEvent \<Rightarrow> hook \<Rightarrow> hook" where
  "onMIDIMessage message h = h\<lparr>midiMessage := Some message\<rparr>"

definition initialHook :: hook where
  "initialHook =
     \<lparr>state = Map.empty, status = Disconnected, connectedDevices = [], midiMessage = None,
      console = []\<rparr>"

section \<open>The hook as a machine over its callbacks\<close>

text \<open>
  One event per callback the hook registers: the two settlements of the access request,
  a state change of a port, a message from an input, and a change of the debounced
  message (which runs the effect). The writes of one callback are applied as one step;
  the scheduling of renders and the dependency arrays of the effects are not represented.
\<close>

datatype hook_event =
  RequestGranted MIDIAccess
| RequestDenied
| StateChange MIDIAccess MIDIConnectionEvent
| MessageReceived MIDIMessageEvent
| DebouncedMessage "MIDIMessageEvent option"

fun hook_step ::
  "MIDIControllersMap \<Rightarrow> (string \<rightharpoonup> ValueTransformer) \<Rightarrow> hook \<Rightarrow> hook_event \<Rightarrow> js_error + hook" where
  "hook_step cs vts h (RequestGranted a) = Inr (accessGranted a h)"
| "hook_step cs vts h RequestDenied = Inr (accessDenied h)"
| "hook_step cs vts h (StateChange a e) = Inr (onstatechange a e h)"
| "hook_step cs vts h (MessageReceived m) = Inr (onMIDIMessage m h)"
| "hook_step cs vts h (DebouncedMessage dm) = messageEffect cs vts h dm"

fun hook_step_verbose ::
  "MIDIControllersMap \<Rightarrow> (string \<rightharpoonup> ValueTransformer) \<Rightarrow> hook \<Rightarrow> hook_event \<Rightarrow> hook" where
  "hook_step_verbose cs vts h (RequestGranted a) = accessGranted a h"
| "hook_step_verbose cs vts h RequestDenied = accessDenied_verbose h"
| "hook_step_verbose cs vts h (StateChange a e) = onstatechange_verbose a e h"
| "hook_step_verbose cs vts h (MessageReceived m) = onMIDIMessage m h"
| "hook_step_verbose cs vts h (DebouncedMessage dm) = messageEffect_verbose cs vts h dm"

text \<open>A run of the compact hook stops at the first exception that leaves an effect.\<close>

fun run ::
  "MIDIControllersMap \<Rightarrow> (string \<rightharpoonup> ValueTransformer) \<Rightarrow> hook \<Rightarrow> hook_event list \<Rightarrow> js_error + hook" where
  "run cs vts h [] = Inr h"
| "run cs vts h (e # es) =
     (case hook_step cs vts h e of Inl err \<Rightarrow> Inl err | Inr h' \<Rightarrow> run cs vts h' es)"

fun run_verbose ::
  "MIDIControllersMap \<Rightarrow> (string \<rightharpoonup> ValueTransformer) \<Rightarrow> hook \<Rightarrow> hook_event list \<Rightarrow> hook" where
  "run_verbose cs vts h [] = h"
| "run_verbose cs vts h (e # es) = run_verbose cs vts (hook_step_verbose cs vts h e) es"

text \<open>An event as the declared types allow it: a message always carries its bytes.\<close>

fun typed_event :: "hook_event \<Rightarrow> bool" where
  "typed_event (MessageReceived m) = (data m \<noteq> None)"
| "typed_event (DebouncedMessage (Some m)) = (data m \<noteq> None)"
| "typed_event _ = True"

text \<open>What the hook returns: \<open>{ state, status, connectedDevices }\<close>.\<close>

definition returned :: "hook \<Rightarrow> MIDIControllerState \<times> MIDIConnectionStatus \<times> MIDIDeviceInfo list" where
  "returned h = (state h, status h, connectedDevices h)"

section \<open>The shipped controller map\<close>

definition u33e :: MIDIControllersMap where
  "u33e =
     [(13, [(176, ''C26''), (177, ''C27''), (178, ''C28''), (179, ''C29''),
            (180, ''C30''), (181, ''C31''), (182, ''C31''), (183, ''C33'')]),
      (12, [(176, ''C18''), (177, ''C19''), (178, ''C20''), (179, ''C21''),
            (180, ''C22''), (181, ''C23''), (182, ''C24''), (183, ''C25'')]),
      (10, [(176, ''C10''), (177, ''C11''), (178, ''C12''), (179, ''C13''),
            (180, ''C14''), (181, ''C15''), (182, ''C16''), (183, ''C17'')]),
      (7, [(176, ''F1''), (177, ''F2''), (178, ''F3''), (179, ''F4''),
           (180, ''F5''), (181, ''F6''), (182, ''F7''), (183, ''F8'')]),
      (28, [(176, ''F9'')])]"

text \<open>The entries of a map as \<open>((command, note), identifier)\<close>, and its identifiers.\<close>

definition entries :: "MIDIControllersMap \<Rightarrow> ((nat \<times> nat) \<times> string) list" where
  "entries m =
     concat (map (\<lambda>(note, row). map (\<lambda>(command, c). ((command, note), c)) row) m)"

definition identifiers :: "MIDIControllersMap \<Rightarrow> string list" where
  "identifiers m = map snd (entries m)"

text \<open>The pairs of a map that carry a given identifier.\<close>

definition pairs_of :: "MIDIControllersMap \<Rightarrow> string \<Rightarrow> (nat \<times> nat) list" where
  "pairs_of m c = map fst (filter (\<lambda>e. snd e = c) (entries m))"

text \<open>The identifiers the profile is described to cover: \<open>C10\<close>--\<open>C33\<close>, \<open>F1\<close>--\<open>F9\<close>.\<close>

definition described_identifiers :: "string list" where
  "described_identifiers =
     [''C10'', ''C11'', ''C12'', ''C13'', ''C14'', ''C15'', ''C16'', ''C17'',
      ''C18'', ''C19'', ''C20'', ''C21'', ''C22'', ''C23'', ''C24'', ''C25'',
      ''C26'', ''C27'', ''C28'', ''C29'', ''C30'', ''C31'', ''C32'', ''C33'',
      ''F1'', ''F2'', ''F3'', ''F4'', ''F5'', ''F6'', ''F7'', ''F8'', ''F9'']"

section \<open>The transform pipeline and the valid configurations, as the specification words them\<close>







text \<open>
  A valid configuration in the specification's sense: \<open>min < max\<close> (after the defaults)
  and a step that is absent or positive. The curve is valid by its type.
\<close>

definition valid_config :: "ValueTransformer \<Rightarrow> bool" where
  "valid_config t =
     (default_to 0 (vt_min t) < default_to 1 (vt_max t)
      \<and> (case vt_step t of None \<Rightarrow> True | Some s \<Rightarrow> 0 < s))"

section \<open>Debounce stage\<close>

text \<open>
  Modelled from the spec: the debounce utility \<open>useDebounce\<close> is imported by both hooks
  from the package \<open>@uidotdev/usehooks\<close> and is not under \<open>src/\<close>. Following sections
  4.3 and 5 of the specification, the stage is timer-driven and holds at most one pending
  event: an arrival at time \<open>t\<close> replaces the pending event and restarts the timer for a
  full window \<open>w\<close>; a pending event is delivered when its timer expires. Times are in
  milliseconds; arrivals are \<open>(time, payload)\<close> in arrival order, the pending event is
  \<open>(deadline, payload)\<close>, and the result lists the deliveries as \<open>(time, payload)\<close>.
\<close>

definition expired :: "nat \<Rightarrow> (nat \<times> 'a) option \<Rightarrow> (nat \<times> 'a) list" where
  "expired t pending =
     (case pending of
        None \<Rightarrow> []
      | Some p \<Rightarrow> if fst p \<le> t then [p] else [])"

fun useDebounce :: "nat \<Rightarrow> (nat \<times> 'a) option \<Rightarrow> (nat \<times> 'a) list \<Rightarrow> (nat \<times> 'a) list" where
  "useDebounce w pending [] = (case pending of None \<Rightarrow> [] | Some p \<Rightarrow> [p])"
| "useDebounce w pending (e # es) =
     expired (fst e) pending @ useDebounce w (Some (fst e + w, snd e)) es"

section \<open>Sample inputs for the concrete instances\<close>

definition uc33 :: MIDIInput where
  "uc33 =
     \<lparr>input_id = ''input-0'', input_name = Some ''UC-33 USB MIDI Controller'',
      input_manufacturer = None, input_connection = Open\<rparr>"

definition unplugged :: MIDIConnectionEvent where
  "unplugged =
     \<lparr>port = \<lparr>port_name = Some ''UC-33 USB MIDI Controller'', port_manufacturer = None,
              port_state = PortDisconnected\<rparr>\<rparr>"

definition knob_message :: MIDIMessageEvent where
  "knob_message = \<lparr>data = Some [176, 13, 127]\<rparr>"

definition unmapped_message :: MIDIMessageEvent where
  "unmapped_message = \<lparr>data = Some [176, 99, 64]\<rparr>"

definition note_on_message :: MIDIMessageEvent where
  "note_on_message = \<lparr>data = Some [144, 60, 100]\<rparr>"

definition null_data_message :: MIDIMessageEvent where
  "null_data_message = \<lparr>data = None\<rparr>"

definition sample_session :: "hook_event list" where
  "sample_session =
     [RequestGranted \<lparr>inputs = [uc33]\<rparr>,
      MessageReceived knob_message,
      DebouncedMessage (Some knob_message),
      DebouncedMessage (Some unmapped_message),
      StateChange \<lparr>inputs = []\<rparr> unplugged]"

section \<open>Properties of the value transform\<close>

lemma applyCurveTransformation_eq: "applyCurveTransformation v c = applyCurve v c"
  by (cases c) (simp_all add: applyCurve_def)

lemma transformValue_verbose_eq:
  "transformValue_verbose vts c r = transformValue vts c r"
  by (simp add: transformValue_verbose_def transformValue_def applyTransformer_def
      applyCurveTransformation_eq split: option.splits)

text \<open>
  C10. A transformer that is present but sets none of \<open>min\<close>, \<open>max\<close>, \<open>curve\<close>,
  \<open>step\<close>, \<open>invert\<close> makes \<open>transformValue\<close> the identity, in both hooks, so it gives
  the same result as no transformer at all for the control.
\<close>

theorem empty_transformer_identity:
  "transformValue (vts(c \<mapsto> empty_transformer)) c raw = raw
   \<and> transformValue_verbose (vts(c \<mapsto> empty_transformer)) c raw = raw
   \<and> transformValue (vts(c \<mapsto> empty_transformer)) c raw = transformValue (vts(c := None)) c raw
   \<and> transformValue_verbose (vts(c \<mapsto> empty_transformer)) c raw
       = transformValue_verbose (vts(c := None)) c raw"
  by (simp add: transformValue_def transformValue_verbose_def applyTransformer_def
      empty_transformer_def default_to_def applyCurve_def)

subsection \<open>The pipeline of \<open>transformValue\<close>\<close>



lemma rawNormalized_127: "rawNormalized 127 = 1"
  by (simp add: rawNormalized_def Math_round_def)

lemma rawNormalized_0: "rawNormalized 0 = 0"
  by (simp add: rawNormalized_def Math_round_def)

text \<open>The velocity quantization at 64: \<open>round(64/127 * 1000)/1000 = 0.504\<close>.\<close>

lemma rawNormalized_64: "rawNormalized 64 = 504 / 1000"
proof -
  have "round (64000 / 127 :: real) = 504"
    by (simp add: round_def floor_eq_iff)
  then show ?thesis by (simp add: rawNormalized_def Math_round_def)
qed




subsection \<open>The shipped controller map\<close>

lemma lookup_C26: "controllerLookup u33e (Some 13) (Some 176) = Some ''C26''"
  by (simp add: controllerLookup_def u33e_def)

lemma entries_u33e:
  "entries u33e =
     [((176, 13), ''C26''), ((177, 13), ''C27''), ((178, 13), ''C28''), ((179, 13), ''C29''),
      ((180, 13), ''C30''), ((181, 13), ''C31''), ((182, 13), ''C31''), ((183, 13), ''C33''),
      ((176, 12), ''C18''), ((177, 12), ''C19''), ((178, 12), ''C20''), ((179, 12), ''C21''),
      ((180, 12), ''C22''), ((181, 12), ''C23''), ((182, 12), ''C24''), ((183, 12), ''C25''),
      ((176, 10), ''C10''), ((177, 10), ''C11''), ((178, 10), ''C12''), ((179, 10), ''C13''),
      ((180, 10), ''C14''), ((181, 10), ''C15''), ((182, 10), ''C16''), ((183, 10), ''C17''),
      ((176, 7), ''F1''), ((177, 7), ''F2''), ((178, 7), ''F3''), ((179, 7), ''F4''),
      ((180, 7), ''F5''), ((181, 7), ''F6''), ((182, 7), ''F7''), ((183, 7), ''F8''),
      ((176, 28), ''F9'')]"
  by (simp add: entries_def u33e_def)

text \<open>
  C3. The shipped map \<open>u33e\<close> does not name \<open>C32\<close>: the pair (status 182, data1 13)
  carries \<open>C31\<close>, as the pair (status 181, data1 13) does, so \<open>C31\<close> is assigned to two
  pairs and one identifier of \<open>C10\<close>--\<open>C33\<close> is missing.
\<close>

theorem u33e_C32_missing:
  "''C32'' \<notin> set (identifiers u33e)
   \<and> ''C32'' \<in> set described_identifiers
   \<and> pairs_of u33e ''C31'' = [(181, 13), (182, 13)]
   \<and> controllerLookup u33e (Some 13) (Some 182) = Some ''C31''
   \<and> controllerLookup u33e (Some 13) (Some 181) = Some ''C31''"
proof -
  have a: "''C32'' \<notin> set (identifiers u33e)"
    by (simp add: identifiers_def entries_u33e)
  have b: "''C32'' \<in> set described_identifiers"
    by (simp add: described_identifiers_def)
  have c: "pairs_of u33e ''C31'' = [(181, 13), (182, 13)]"
    by (simp add: pairs_of_def entries_u33e)
  have d: "controllerLookup u33e (Some 13) (Some 182) = Some ''C31''"
    "controllerLookup u33e (Some 13) (Some 181) = Some ''C31''"
    by (simp_all add: controllerLookup_def u33e_def)
  from a b c d show ?thesis by (intro conjI)
qed

section \<open>Properties of the device session\<close>

lemma deviceInfo_id: "map info_id (map deviceInfo xs) = map input_id xs"
  by (induction xs) (simp_all add: deviceInfo_def)

lemma transformValue_verbose_fun: "transformValue_verbose vts = transformValue vts"
  by (intro ext) (rule transformValue_verbose_eq)

lemma element_triple:
  "element (a # b # c # xs) 0 = Some a"
  "element (a # b # c # xs) 1 = Some b"
  "element (a # b # c # xs) 2 = Some c"
  by (simp_all add: eval_nat_numeral)

text \<open>
  C1 (as amended). On every state-change notification both hooks set the status from the
  changed port's state, \<open>connected\<close> when the port is connected and \<open>disconnected\<close>
  otherwise, so a detachment turns the status to \<open>disconnected\<close>; the device list is
  rebuilt from the ports the subsystem enumerates at that moment, so a device that is no
  longer enumerated is absent from the next snapshot; the controller state is untouched.
\<close>

theorem statechange_status_follows_port:
  "status (onstatechange a e h)
     = (if port_state (port e) = PortConnected then Connected else Disconnected)
   \<and> connectedDevices (onstatechange a e h) = map deviceInfo (inputs a)
   \<and> map info_id (connectedDevices (onstatechange a e h)) = map input_id (inputs a)
   \<and> state (onstatechange a e h) = state h
   \<and> returned (onstatechange_verbose a e h) = returned (onstatechange a e h)"
  by (simp add: onstatechange_def onstatechange_verbose_def updateDevices_def portStatus_def
      returned_def Let_def deviceInfo_id [simplified])

text \<open>
  C1 as stated fails: after access was granted, the notification that the only device
  was unplugged takes the status from \<open>connected\<close> to \<open>disconnected\<close>.
\<close>

theorem statechange_disconnect_counterexample:
  "status (accessGranted \<lparr>inputs = [uc33]\<rparr> initialHook) = Connected
   \<and> status (onstatechange \<lparr>inputs = []\<rparr> unplugged
         (accessGranted \<lparr>inputs = [uc33]\<rparr> initialHook)) = Disconnected
   \<and> status (onstatechange_verbose \<lparr>inputs = []\<rparr> unplugged
         (accessGranted \<lparr>inputs = [uc33]\<rparr> initialHook)) = Disconnected"
  by (simp add: accessGranted_def onstatechange_def onstatechange_verbose_def
      updateDevices_def portStatus_def unplugged_def Let_def)

section \<open>Properties of the message effect\<close>

lemma messageEffect_verbose_status:
  "status (messageEffect_verbose cs vts h dm) = (if raises dm then Error else status h)"
  by (cases dm)
     (auto simp: raises_def messageEffect_verbose_def tryBlock_verbose_def Let_def split: option.splits)

lemma messageEffect_verbose_raises_state:
  "raises dm \<Longrightarrow> state (messageEffect_verbose cs vts h dm) = state h"
  by (cases dm)
     (auto simp: raises_def messageEffect_verbose_def tryBlock_verbose_def Let_def split: option.splits)

lemma messageEffect_status:
  "(case messageEffect cs vts h dm of
      Inl e \<Rightarrow> raises dm
    | Inr h' \<Rightarrow> \<not> raises dm \<and> status h' = status h)"
  by (cases dm)
     (auto simp: raises_def messageEffect_def Let_def split: option.splits)

lemma unmapped_effect:
  assumes "controllerLookup cs (element d 1) (element d 0) = None"
  shows "messageEffect cs vts h (Some \<lparr>data = Some d\<rparr>) = Inr h
     \<and> messageEffect_verbose cs vts h (Some \<lparr>data = Some d\<rparr>)
         = h\<lparr>console := console h @ [ConsoleWarnNoMapping (element d 1) (element d 0)]\<rparr>"
  using assms
  by (simp add: messageEffect_def messageEffect_verbose_def tryBlock_verbose_def Let_def)

lemma mapped_effect:
  assumes "controllerLookup cs (Some note) (Some command) = Some c" "c \<noteq> []"
  shows "messageEffect cs vts h (Some \<lparr>data = Some [command, note, velocity]\<rparr>)
       = Inr (h\<lparr>state := (state h)(c \<mapsto> Num (transformValue vts c (rawNormalized velocity)))\<rparr>)
     \<and> messageEffect_verbose cs vts h (Some \<lparr>data = Some [command, note, velocity]\<rparr>)
       = h\<lparr>state := (state h)(c \<mapsto> Num (transformValue vts c (rawNormalized velocity)))\<rparr>"
  using assms
  by (simp add: messageEffect_def messageEffect_verbose_def tryBlock_verbose_def Let_def
      reducer_def dispatchedValue_def transformValue_verbose_fun element_triple)

text \<open>
  The message (status 176, data1 13, velocity 127) against the shipped map, with no
  transformer: the control is \<open>C26\<close> and its value becomes \<open>1\<close>.
\<close>

lemma knob_end_to_end:
  "messageEffect u33e Map.empty initialHook (Some knob_message)
     = Inr (initialHook\<lparr>state := [''C26'' \<mapsto> Num 1]\<rparr>)"
  using mapped_effect [of u33e 13 176 "''C26''" Map.empty initialHook 127, OF lookup_C26]
  by (simp add: knob_message_def transformValue_def rawNormalized_127 initialHook_def)

text \<open>
  C4 (as amended). A message that is processed or dropped for want of a mapping never
  changes the status, in either hook. A processing exception does: the verbose hook
  catches it, sets the status to \<open>error\<close> and leaves the controller state as it was;
  the compact hook has no handler, so the exception leaves the effect and nothing is
  written.
\<close>

theorem message_effect_status:
  "status (messageEffect_verbose cs vts h dm) = (if raises dm then Error else status h)
   \<and> state (messageEffect_verbose cs vts h (Some \<lparr>data = None\<rparr>)) = state h
   \<and> (case messageEffect cs vts h dm of
         Inl e \<Rightarrow> raises dm
       | Inr h' \<Rightarrow> \<not> raises dm \<and> status h' = status h)"
proof -
  have "raises (Some \<lparr>data = None\<rparr>)" by (simp add: raises_def)
  then have "state (messageEffect_verbose cs vts h (Some \<lparr>data = None\<rparr>)) = state h"
    by (rule messageEffect_verbose_raises_state)
  then show ?thesis
    using messageEffect_verbose_status [where cs = cs and vts = vts and h = h and dm = dm]
      messageEffect_status [where cs = cs and vts = vts and h = h and dm = dm]
    by simp
qed

text \<open>
  C4 as stated fails in the verbose hook: with the status \<open>connected\<close>, a message whose
  handling throws leaves the status \<open>error\<close>.
\<close>

theorem message_exception_counterexample:
  "status (accessGranted \<lparr>inputs = [uc33]\<rparr> initialHook) = Connected
   \<and> status (messageEffect_verbose u33e Map.empty
         (accessGranted \<lparr>inputs = [uc33]\<rparr> initialHook) (Some null_data_message)) = Error"
  by (simp add: accessGranted_def updateDevices_def messageEffect_verbose_def
      tryBlock_verbose_def null_data_message_def)

text \<open>
  C5 (as amended). Neither hook validates a transformer: whatever the configuration of a
  mapped control is, valid or not, a message for the control is transformed under it and
  the result is stored. A step of \<open>0\<close> is treated as an absent step, so no division by
  zero takes place.
\<close>

theorem transformer_used_unvalidated:
  assumes "controllerLookup cs (Some note) (Some command) = Some c" and "c \<noteq> []"
    and "vts c = Some t"
  shows "messageEffect cs vts h (Some \<lparr>data = Some [command, note, velocity]\<rparr>)
           = Inr (h\<lparr>state := (state h)
                   (c \<mapsto> Num (applyTransformer applyCurve t (rawNormalized velocity)))\<rparr>)
         \<and> messageEffect_verbose cs vts h (Some \<lparr>data = Some [command, note, velocity]\<rparr>)
           = h\<lparr>state := (state h)
                   (c \<mapsto> Num (applyTransformer applyCurve t (rawNormalized velocity)))\<rparr>
         \<and> applyTransformer applyCurve (t\<lparr>vt_step := Some 0\<rparr>) raw
           = applyTransformer applyCurve (t\<lparr>vt_step := None\<rparr>) raw"
proof -
  have "transformValue vts c (rawNormalized velocity)
          = applyTransformer applyCurve t (rawNormalized velocity)"
    using assms(3) by (simp add: transformValue_def)
  moreover have "applyTransformer applyCurve (t\<lparr>vt_step := Some 0\<rparr>) raw
           = applyTransformer applyCurve (t\<lparr>vt_step := None\<rparr>) raw"
    by (simp add: applyTransformer_def)
  ultimately show ?thesis
    using mapped_effect [OF assms(1,2), of vts h velocity] by simp
qed

theorem transformer_used_unvalidated_witness:
  "\<not> valid_config invalid_transformer
   \<and> controllerLookup u33e (Some 13) (Some 176) = Some ''C26''
   \<and> messageEffect u33e [''C26'' \<mapsto> invalid_transformer] initialHook
         (Some \<lparr>data = Some [176, 13, 0]\<rparr>)
       = Inr (initialHook\<lparr>state := [''C26'' \<mapsto> Num 2]\<rparr>)"
proof -
  note l = lookup_C26
  have n: "''C26'' \<noteq> []" by simp
  have t: "[''C26'' \<mapsto> invalid_transformer] ''C26'' = Some invalid_transformer" by simp
  have i: "\<not> valid_config invalid_transformer"
    by (simp add: valid_config_def invalid_transformer_def default_to_def)
  have v: "applyTransformer applyCurve invalid_transformer (rawNormalized 0) = 2"
    by (simp add: applyTransformer_def invalid_transformer_def default_to_def applyCurve_def
        rawNormalized_0 Math_round_def Let_def)
  have s: "state initialHook = Map.empty" by (simp add: initialHook_def)
  from transformer_used_unvalidated
    [of u33e 13 176 "''C26''" "[''C26'' \<mapsto> invalid_transformer]" invalid_transformer
      initialHook 0 0, OF l n t]
  have "messageEffect u33e [''C26'' \<mapsto> invalid_transformer] initialHook
         (Some \<lparr>data = Some [176, 13, 0]\<rparr>)
       = Inr (initialHook\<lparr>state := [''C26'' \<mapsto> Num 2]\<rparr>)"
    by (simp only: v s)
  with i l show ?thesis by (intro conjI)
qed

text \<open>
  C5 as stated fails: a transformer with \<open>min = 2\<close>, \<open>max = 1\<close> and \<open>step = -1/2\<close> is
  invalid on both counts, yet a message for its control is transformed under it.
\<close>

theorem invalid_transformer_counterexample:
  "\<not> valid_config invalid_transformer
   \<and> messageEffect u33e [''C26'' \<mapsto> invalid_transformer] initialHook (Some knob_message)
       = Inr (initialHook\<lparr>state := [''C26'' \<mapsto> Num 1]\<rparr>)"
proof -
  have i: "\<not> valid_config invalid_transformer"
    by (simp add: valid_config_def invalid_transformer_def default_to_def)
  note l = lookup_C26
  have v: "transformValue [''C26'' \<mapsto> invalid_transformer] ''C26'' (rawNormalized 127) = 1"
    by (simp add: transformValue_def applyTransformer_def invalid_transformer_def
        default_to_def applyCurve_def rawNormalized_127 Math_round_def Let_def)
  have s: "state initialHook = Map.empty" by (simp add: initialHook_def)
  have "messageEffect u33e [''C26'' \<mapsto> invalid_transformer] initialHook (Some knob_message)
       = Inr (initialHook\<lparr>state := [''C26'' \<mapsto> Num 1]\<rparr>)"
    using mapped_effect [of u33e 13 176 "''C26''" "[''C26'' \<mapsto> invalid_transformer]"
        initialHook 127, OF l]
    by (simp add: knob_message_def v s)
  with i show ?thesis by simp
qed

text \<open>
  C7 (as amended). For a message whose (status, data1) pair has no entry in the controller
  map, the compact hook changes nothing at all and logs nothing; the verbose hook appends
  one warning to the console and changes nothing else. In neither hook is an entry of the
  controller state created or overwritten.
\<close>

theorem unmapped_message_effect:
  assumes "controllerLookup cs (element d 1) (element d 0) = None"
  shows "messageEffect cs vts h (Some \<lparr>data = Some d\<rparr>) = Inr h
         \<and> messageEffect_verbose cs vts h (Some \<lparr>data = Some d\<rparr>)
           = h\<lparr>console := console h @ [ConsoleWarnNoMapping (element d 1) (element d 0)]\<rparr>"
  using assms by (rule unmapped_effect)

theorem unmapped_message_effect_witness:
  "controllerLookup u33e (element [176, 99, 64] 1) (element [176, 99, 64] 0) = None
   \<and> messageEffect u33e Map.empty initialHook (Some unmapped_message) = Inr initialHook
   \<and> messageEffect_verbose u33e Map.empty initialHook (Some unmapped_message)
       = initialHook\<lparr>console := [ConsoleWarnNoMapping (Some 99) (Some 176)]\<rparr>"
proof -
  have l: "controllerLookup u33e (element [176, 99, 64] 1) (element [176, 99, 64] 0) = None"
    by (simp add: element_triple controllerLookup_def u33e_def)
  have c: "console initialHook = []" by (simp add: initialHook_def)
  show ?thesis
    using l unmapped_message_effect [of u33e "[176, 99, 64]" Map.empty initialHook, OF l]
    by (simp add: unmapped_message_def element_triple c)
qed

text \<open>
  C7 as stated fails in the compact hook: an unmapped note-on message leaves the hook as
  it was, console included, so no warning is emitted.
\<close>

theorem unmapped_no_warning_counterexample:
  "controllerLookup u33e (Some 60) (Some 144) = None
   \<and> messageEffect u33e Map.empty initialHook (Some note_on_message) = Inr initialHook
   \<and> console initialHook = []"
  by (simp add: messageEffect_def note_on_message_def element_triple controllerLookup_def
      u33e_def initialHook_def Let_def)

section \<open>The two hooks compared\<close>

lemma step_agree:
  assumes "typed_event e" "returned h = returned hv"
  shows "\<exists>h'. hook_step cs vts h e = Inr h'
              \<and> returned h' = returned (hook_step_verbose cs vts hv e)"
proof (cases e)
  case (DebouncedMessage dm)
  show ?thesis
  proof (cases dm)
    case None
    then show ?thesis using DebouncedMessage assms
      by (simp add: messageEffect_def messageEffect_verbose_def)
  next
    case (Some m)
    then obtain d where d: "data m = Some d" using DebouncedMessage assms(1) by auto
    show ?thesis using DebouncedMessage Some d assms(2)
      by (auto simp: messageEffect_def messageEffect_verbose_def tryBlock_verbose_def Let_def
          returned_def reducer_def transformValue_verbose_fun split: option.splits)
  qed
qed (use assms in \<open>auto simp: returned_def accessGranted_def accessDenied_def
      accessDenied_verbose_def onstatechange_def onstatechange_verbose_def updateDevices_def
      onMIDIMessage_def Let_def\<close>)

lemma run_agree:
  assumes "\<forall>e\<in>set es. typed_event e" "returned h = returned hv"
  shows "\<exists>h'. run cs vts h es = Inr h' \<and> returned h' = returned (run_verbose cs vts hv es)"
  using assms
proof (induction es arbitrary: h hv)
  case Nil
  then show ?case by simp
next
  case (Cons e es)
  then obtain h1 where h1: "hook_step cs vts h e = Inr h1"
    "returned h1 = returned (hook_step_verbose cs vts hv e)"
    using step_agree [of e h hv cs vts] by auto
  with Cons show ?case by auto
qed


text \<open>
  C9 (as amended). On every sequence of access outcomes, received messages, debounced
  messages and state changes in which each message carries its bytes, the compact hook
  runs to the end and returns the same controller state, the same status and the same
  device list as the verbose hook. The console output is not part of the agreement.
\<close>

theorem hooks_return_the_same:
  assumes "list_all typed_event es"
  shows "\<exists>h'. run cs vts h es = Inr h' \<and> returned h' = returned (run_verbose cs vts h es)"
  using assms run_agree [of es h h cs vts] by (simp add: list_all_iff)

theorem hooks_return_the_same_witness:
  "list_all typed_event sample_session
   \<and> map_sum id returned (run u33e Map.empty initialHook sample_session)
       = Inr (returned (run_verbose u33e Map.empty initialHook sample_session))"
proof -
  have t: "list_all typed_event sample_session"
    by (simp add: sample_session_def knob_message_def unmapped_message_def)
  from hooks_return_the_same [OF t, of u33e Map.empty initialHook]
  obtain h' where "run u33e Map.empty initialHook sample_session = Inr h'"
    "returned h' = returned (run_verbose u33e Map.empty initialHook sample_session)"
    by blast
  then have "map_sum id returned (run u33e Map.empty initialHook sample_session)
       = Inr (returned (run_verbose u33e Map.empty initialHook sample_session))"
    by simp
  with t show ?thesis by simp
qed

text \<open>
  C9 as stated fails on the observability events: for an unmapped message the verbose
  hook writes a warning and the compact hook writes nothing.
\<close>

theorem hooks_console_counterexample:
  "run u33e Map.empty initialHook [DebouncedMessage (Some unmapped_message)] = Inr initialHook
   \<and> console initialHook = []
   \<and> console (run_verbose u33e Map.empty initialHook [DebouncedMessage (Some unmapped_message)])
       = [ConsoleWarnNoMapping (Some 99) (Some 176)]"
  by (simp add: messageEffect_def messageEffect_verbose_def tryBlock_verbose_def
      unmapped_message_def element_triple controllerLookup_def u33e_def initialHook_def Let_def)

section \<open>Properties of the debounce stage\<close>

lemma useDebounce_pending_burst:
  assumes "\<forall>e\<in>set es. fst e < b" and "b \<le> fst p" and "\<forall>e\<in>set es. b \<le> fst e + w"
  shows "useDebounce w (Some p) es = [if es = [] then p else (fst (last es) + w, snd (last es))]"
  using assms
proof (induction es arbitrary: p)
  case Nil
  then show ?case by simp
next
  case (Cons e es)
  have "\<not> fst p \<le> fst e" using Cons.prems(1,2) by auto
  then have "useDebounce w (Some p) (e # es) = useDebounce w (Some (fst e + w, snd e)) es"
    by (simp add: expired_def)
  also have "\<dots> = [if es = [] then (fst e + w, snd e) else (fst (last es) + w, snd (last es))]"
    using Cons.prems by (intro Cons.IH) auto
  finally show ?case by simp
qed

lemma sorted_times_le_last:
  "sorted_wrt (<) (map fst (xs :: (nat \<times> 'a) list)) \<Longrightarrow> e \<in> set xs \<Longrightarrow> fst e \<le> fst (last xs)"
proof (induction xs)
  case Nil
  then show ?case by simp
next
  case (Cons x xs)
  show ?case
  proof (cases "xs = []")
    case True
    then show ?thesis using Cons.prems by simp
  next
    case False
    then have "last xs \<in> set xs" by simp
    then have "fst x < fst (last xs)" using Cons.prems(1) by auto
    moreover have "e \<in> set xs \<Longrightarrow> fst e \<le> fst (last xs)"
      using Cons.IH Cons.prems(1) by simp
    ultimately show ?thesis using Cons.prems(2) False by auto
  qed
qed

text \<open>
  C8. For a window \<open>w > 0\<close> and a non-empty burst of arrivals at strictly increasing
  times that all lie within one window of the first, the stage delivers exactly one
  event; it carries the payload of the last arrival and is delivered a full window after
  the last arrival, hence strictly later than every arrival of the burst and never at
  the start of the window.
\<close>

theorem debounce_burst_delivers_latest_once:
  assumes "0 < w" and "arrivals \<noteq> []" and "sorted_wrt (<) (map fst arrivals)"
    and "fst (last arrivals) < fst (hd arrivals) + w"
  shows "useDebounce w None arrivals = [(fst (last arrivals) + w, snd (last arrivals))]
         \<and> list_all (\<lambda>a. fst a < fst (last arrivals) + w) arrivals"
proof -
  obtain a es where ar: "arrivals = a # es" using assms(2) by (cases arrivals) auto
  have gt: "\<forall>e\<in>set es. fst a < fst e" using assms(3) ar by auto
  have le_last: "\<forall>e\<in>set arrivals. fst e \<le> fst (last arrivals)"
    using assms(3) by (simp add: sorted_times_le_last)
  have lt: "\<forall>e\<in>set es. fst e < fst a + w" using le_last assms(4) ar by fastforce
  have "useDebounce w None arrivals = useDebounce w (Some (fst a + w, snd a)) es"
    by (simp add: ar expired_def)
  also have "\<dots> = [if es = [] then (fst a + w, snd a) else (fst (last es) + w, snd (last es))]"
    using lt gt by (intro useDebounce_pending_burst [where b = "fst a + w"]) auto
  also have "\<dots> = [(fst (last arrivals) + w, snd (last arrivals))]"
    by (simp add: ar)
  finally have 1: "useDebounce w None arrivals = [(fst (last arrivals) + w, snd (last arrivals))]" .
  have 2: "list_all (\<lambda>a. fst a < fst (last arrivals) + w) arrivals"
    using le_last assms(1) by (fastforce simp: list_all_iff)
  from 1 2 show ?thesis by simp
qed

theorem debounce_burst_delivers_latest_once_witness:
  "(0::nat) < 16 \<and> [(0::nat, ''a''), (5, ''b''), (12, ''c'')] \<noteq> []
   \<and> sorted_wrt (<) (map fst [(0::nat, ''a''), (5, ''b''), (12, ''c'')])
   \<and> fst (last [(0::nat, ''a''), (5, ''b''), (12, ''c'')]) < fst (hd [(0::nat, ''a''), (5, ''b''), (12, ''c'')]) + 16
   \<and> useDebounce 16 None [(0, ''a''), (5, ''b''), (12, ''c'')] = [(28, ''c'')]"
  using debounce_burst_delivers_latest_once [of 16 "[(0, ''a''), (5, ''b''), (12, ''c'')]"]
  by simp


end
